theory Spec2Isabelle
  imports Main "HOL-Library.AList"
begin

section \<open>JavaScript values\<close>

text \<open>
  A value of a TypeScript type \<^verbatim>\<open>T | null | undefined\<close>. Both \<open>Undefined\<close> and \<open>Null\<close>
  are "missing"; they stay distinct because \<^verbatim>\<open>!==\<close> tells them apart.
\<close>

datatype 'a nullable = Undefined | Null | Val 'a

text \<open>Reading a property of, or calling a method on, a missing value raises.\<close>

datatype js_error = TypeError

text \<open>Truthiness of a string-or-missing value: the empty string is falsy as well.\<close>

fun truthy_string :: "string nullable \<Rightarrow> bool" where
  "truthy_string (Val s) = (s \<noteq> [])"
| "truthy_string Null = False"
| "truthy_string Undefined = False"

text \<open>Truthiness of an object-or-missing value: every object and every array is truthy.\<close>

fun truthy_object :: "'a nullable \<Rightarrow> bool" where
  "truthy_object (Val _) = True"
| "truthy_object Null = False"
| "truthy_object Undefined = False"

text \<open>\<^verbatim>\<open>x?.f\<close>: the property of a present object, \<^verbatim>\<open>undefined\<close> for a missing one.\<close>

definition opt_chain :: "'a nullable \<Rightarrow> ('a \<Rightarrow> 'b nullable) \<Rightarrow> 'b nullable" where
  "opt_chain x f = (case x of Val v \<Rightarrow> f v | Null \<Rightarrow> Undefined | Undefined \<Rightarrow> Undefined)"

text \<open>\<^verbatim>\<open>x || d\<close> on object values: the left operand when it is truthy, else the right one.\<close>

definition or_else :: "'a nullable \<Rightarrow> 'a nullable \<Rightarrow> 'a nullable" where
  "or_else x d = (if truthy_object x then x else d)"

text \<open>\<^verbatim>\<open>Array.isArray(x)\<close> for a value typed as an array or missing.\<close>

definition isArray :: "'a list nullable \<Rightarrow> bool" where
  "isArray x = (case x of Val _ \<Rightarrow> True | Null \<Rightarrow> False | Undefined \<Rightarrow> False)"

text \<open>\<^verbatim>\<open>x.length\<close> and \<^verbatim>\<open>x.map(f)\<close>: a \<^verbatim>\<open>TypeError\<close> when \<open>x\<close> is missing.\<close>

definition js_length :: "'a list nullable \<Rightarrow> js_error + nat" where
  "js_length x = (case x of Val ys \<Rightarrow> Inr (length ys) | Null \<Rightarrow> Inl TypeError
                  | Undefined \<Rightarrow> Inl TypeError)"

definition js_map :: "'a list nullable \<Rightarrow> ('a \<Rightarrow> nat \<Rightarrow> 'b) \<Rightarrow> js_error + 'b list" where
  "js_map x f = (case x of Val ys \<Rightarrow> Inr (map (\<lambda>(i, y). f y i) (enumerate 0 ys))
                 | Null \<Rightarrow> Inl TypeError | Undefined \<Rightarrow> Inl TypeError)"

section \<open>The shared header theme and the components' effects\<close>

text \<open>
  \<open>useEffect(body, deps)\<close> of the UI framework: the body runs after the mounting render,
  and after a later render when there is no dependency array (\<open>None\<close>) or when one of the
  listed dependencies changed (\<open>Some True\<close>). On unmount only a cleanup function returned
  by the body would run.
\<close>

datatype lifecycle = Mounted | Rerendered | Unmounted

definition useEffect_runs :: "lifecycle \<Rightarrow> bool option \<Rightarrow> bool" where
  "useEffect_runs lc deps_changed =
     (case lc of
        Mounted \<Rightarrow> True
      | Rerendered \<Rightarrow> (case deps_changed of None \<Rightarrow> True | Some c \<Rightarrow> c)
      | Unmounted \<Rightarrow> False)"

text \<open>
  Modelled from the spec: the provider \<^verbatim>\<open>@/providers/HeaderTheme\<close> is not among the
  sources. It holds one value, exposes it with a setter, and does no validation:
  \<^verbatim>\<open>setHeaderTheme(v)\<close> replaces the value. A list of calls made in order leaves the last
  written value.
\<close>

definition setHeaderTheme :: "string nullable \<Rightarrow> string nullable \<Rightarrow> string nullable" where
  "setHeaderTheme v headerTheme = v"

definition apply_writes :: "string nullable list \<Rightarrow> string nullable \<Rightarrow> string nullable" where
  "apply_writes ws headerTheme = fold setHeaderTheme ws headerTheme"

text \<open>
  \<^verbatim>\<open>HeaderClient\<close>, first effect: \<^verbatim>\<open>useEffect(() => { setHeaderTheme(null) }, [setHeaderTheme])\<close>.
  The result lists the calls of \<^verbatim>\<open>setHeaderTheme\<close> the component makes at a lifecycle
  step; \<open>setter_changed\<close> says whether the identity of \<^verbatim>\<open>setHeaderTheme\<close> changed since the
  previous render. No cleanup function is returned.
\<close>

definition HeaderClient_writes :: "lifecycle \<Rightarrow> bool \<Rightarrow> string nullable list" where
  "HeaderClient_writes lc setter_changed =
     (if useEffect_runs lc (Some setter_changed) then [Null] else [])"

text \<open>
  \<^verbatim>\<open>HeaderClient\<close>, second effect:
  \<^verbatim>\<open>if (headerTheme && headerTheme !== theme) setTheme(headerTheme)\<close>.
  \<open>HeaderClient_setTheme_call\<close> is the argument of the call of \<^verbatim>\<open>setTheme\<close>, if the body
  makes one; \<open>HeaderClient_sync\<close> is the local state \<^verbatim>\<open>theme\<close> after the body ran with
  the shared value \<open>headerTheme\<close> it was rendered with.
\<close>

definition HeaderClient_setTheme_call ::
    "string nullable \<Rightarrow> string nullable \<Rightarrow> string nullable option" where
  "HeaderClient_setTheme_call headerTheme theme =
     (if truthy_string headerTheme \<and> headerTheme \<noteq> theme then Some headerTheme else None)"

definition HeaderClient_sync :: "string nullable \<Rightarrow> string nullable \<Rightarrow> string nullable" where
  "HeaderClient_sync theme headerTheme =
     (case HeaderClient_setTheme_call headerTheme theme of Some v \<Rightarrow> v | None \<Rightarrow> theme)"

text \<open>\<^verbatim>\<open>useState<string | null>(null)\<close>: the local state of a freshly mounted Header.\<close>

definition HeaderClient_initial_theme :: "string nullable" where
  "HeaderClient_initial_theme = Null"

text \<open>
  The local state after the Header has been rendered with each value of a sequence of
  shared values in turn, the second effect running after each render. (The framework
  skips the body when neither \<^verbatim>\<open>headerTheme\<close> nor \<^verbatim>\<open>theme\<close> changed since it last ran;
  the body would then make no call.)
\<close>

definition HeaderClient_observe ::
    "string nullable \<Rightarrow> string nullable list \<Rightarrow> string nullable" where
  "HeaderClient_observe theme hs = foldl HeaderClient_sync theme hs"

text \<open>
  \<^verbatim>\<open>HighImpactHero\<close>: \<^verbatim>\<open>useEffect(() => { setHeaderTheme('dark') })\<close>, with no dependency
  array and no cleanup function. The props are an argument because the effect is created
  by the render that received them.
\<close>

definition HighImpactHero_writes :: "'p \<Rightarrow> lifecycle \<Rightarrow> string nullable list" where
  "HighImpactHero_writes props lc =
     (if useEffect_runs lc None then [Val ''dark''] else [])"

text \<open>The shared value after the Hero went through a sequence of lifecycle steps.\<close>

definition HighImpactHero_session ::
    "('p \<times> lifecycle) list \<Rightarrow> string nullable \<Rightarrow> string nullable" where
  "HighImpactHero_session steps headerTheme =
     fold (\<lambda>(props, lc). apply_writes (HighImpactHero_writes props lc)) steps headerTheme"

section \<open>CMS data\<close>

text \<open>
  Modelled from the spec: the generated CMS types (\<^verbatim>\<open>@/payload-types\<close>) are not among the
  sources. A navigation entry is \<^verbatim>\<open>{ link: {label, url|reference, appearance?} }\<close>, the
  header and footer globals are \<^verbatim>\<open>{ navItems: [...] }\<close>, and the hero of a page is
  \<^verbatim>\<open>{ links, media, richText }\<close>. Optional fields may be \<^verbatim>\<open>null\<close> or absent. The rich
  text and the media document are opaque to this code and stay type parameters; a media
  field that is not an object is the identifier of a document that was not populated.
\<close>

record link =
  label :: string
  url :: "string nullable"
  reference :: "string nullable"
  appearance :: "string nullable"

record linkItem =
  link :: link

record nav_global =
  navItems :: "linkItem list nullable"

datatype 'm media_ref = MediaId string | MediaDoc 'm

record ('r, 'm) hero =
  links :: "linkItem list nullable"
  media :: "'m media_ref nullable"
  richText :: "'r nullable"

section \<open>Rendered elements\<close>

text \<open>
  An element has a type (a lower-case host tag or a component name), an optional key, its
  props in the order they were assigned, and children. \<open>Empty\<close> is a child that is
  \<^verbatim>\<open>false\<close>, \<^verbatim>\<open>null\<close> or \<^verbatim>\<open>undefined\<close>, for which nothing is rendered. The components
  imported from outside the sources (\<^verbatim>\<open>CMSLink\<close>, \<^verbatim>\<open>Link\<close>, \<^verbatim>\<open>Logo\<close>, \<^verbatim>\<open>SearchIcon\<close>,
  \<^verbatim>\<open>ThemeSelector\<close>, \<^verbatim>\<open>RichText\<close>, \<^verbatim>\<open>Media\<close>) stay unexpanded elements.
\<close>

datatype key = KeyStr string | KeyIdx nat

datatype ('r, 'm) pval = PStr string | PBool bool | PNull | PRich 'r | PMedia 'm

type_synonym ('r, 'm) props = "(string \<times> ('r, 'm) pval) list"

datatype ('r, 'm) jsx =
    Elem string "key option" "('r, 'm) props" "('r, 'm) jsx list"
  | Text string
  | Empty

text \<open>\<^verbatim>\<open>{...ps, ...qs}\<close>: the properties of \<open>qs\<close> assigned onto \<open>ps\<close>, a later one replacing
  an earlier one of the same name in place.\<close>

definition spread :: "('r, 'm) props \<Rightarrow> ('r, 'm) props \<Rightarrow> ('r, 'm) props" where
  "spread ps qs = fold (\<lambda>(k, v). AList.update k v) qs ps"

text \<open>An optional string property of an object: absent when \<^verbatim>\<open>undefined\<close>.\<close>

definition own_prop :: "string \<Rightarrow> string nullable \<Rightarrow> ('r, 'm) props" where
  "own_prop k v = (case v of Val s \<Rightarrow> [(k, PStr s)] | Null \<Rightarrow> [(k, PNull)] | Undefined \<Rightarrow> [])"

text \<open>\<^verbatim>\<open>{...link}\<close>.\<close>

definition link_props :: "link \<Rightarrow> ('r, 'm) props" where
  "link_props l =
     (''label'', PStr (label l)) # own_prop ''url'' (url l) @ own_prop ''reference'' (reference l)
       @ own_prop ''appearance'' (appearance l)"

fun etype :: "('r, 'm) jsx \<Rightarrow> string" where
  "etype (Elem t k ps cs) = t"
| "etype (Text s) = []"
| "etype Empty = []"


fun eprops :: "('r, 'm) jsx \<Rightarrow> ('r, 'm) props" where
  "eprops (Elem t k ps cs) = ps"
| "eprops (Text s) = []"
| "eprops Empty = []"

fun echildren :: "('r, 'm) jsx \<Rightarrow> ('r, 'm) jsx list" where
  "echildren (Elem t k ps cs) = cs"
| "echildren (Text s) = []"
| "echildren Empty = []"

text \<open>The value of a prop of an element, \<open>None\<close> when the element does not carry it.\<close>

definition attr :: "string \<Rightarrow> ('r, 'm) jsx \<Rightarrow> ('r, 'm) pval option" where
  "attr name e = map_of (eprops e) name"

text \<open>All elements of one type in a tree, in document order.\<close>

fun elements_of :: "string \<Rightarrow> ('r, 'm) jsx \<Rightarrow> ('r, 'm) jsx list" where
  "elements_of ty (Elem t k ps cs) =
     (if t = ty then [Elem t k ps cs] else []) @ concat (map (elements_of ty) cs)"
| "elements_of ty (Text s) = []"
| "elements_of ty Empty = []"

text \<open>The component elements of a tree (type names starting with a capital letter), in
  document order.\<close>

definition is_component :: "string \<Rightarrow> bool" where
  "is_component t = (case t of [] \<Rightarrow> False | c # _ \<Rightarrow> c \<in> set ''ABCDEFGHIJKLMNOPQRSTUVWXYZ'')"

fun components :: "('r, 'm) jsx \<Rightarrow> string list" where
  "components (Elem t k ps cs) =
     (if is_component t then [t] else []) @ concat (map components cs)"
| "components (Text s) = []"
| "components Empty = []"

section \<open>The components' render functions\<close>

text \<open>\<^verbatim>\<open>const navItems = data?.navItems || []\<close>, in \<^verbatim>\<open>HeaderNav\<close> and in \<^verbatim>\<open>Footer\<close>.\<close>

definition nav_list :: "nav_global nullable \<Rightarrow> linkItem list nullable" where
  "nav_list data = or_else (opt_chain data navItems) (Val [])"

definition search_link :: "('r, 'm) jsx" where
  "search_link =
     Elem ''Link'' None [(''href'', PStr ''/search'')]
       [Elem ''span'' None [(''className'', PStr ''sr-only'')] [Text ''Search''],
        Elem ''SearchIcon'' None [(''className'', PStr ''w-5 text-primary'')] []]"

definition HeaderNav :: "nav_global nullable \<Rightarrow> js_error + ('r, 'm) jsx" where
  "HeaderNav data =
     (case js_map (nav_list data)
             (\<lambda>item i. Elem ''CMSLink'' (Some (KeyStr (label (link item))))
                          (spread (link_props (link item)) [(''appearance'', PStr ''link'')]) [])
      of Inl e \<Rightarrow> Inl e
       | Inr items \<Rightarrow>
           Inr (Elem ''nav'' None [(''className'', PStr ''flex gap-3 items-center'')]
                  (items @ [search_link])))"

text \<open>\<^verbatim>\<open>HeaderClient\<close>, rendered with the props \<open>data\<close> and the local state \<open>theme\<close>. The
  child \<^verbatim>\<open><HeaderNav data={data} />\<close> is a component of these sources and appears as what
  it renders.\<close>

definition HeaderClient :: "nav_global nullable \<Rightarrow> string nullable \<Rightarrow> js_error + ('r, 'm) jsx" where
  "HeaderClient data theme =
     (case HeaderNav data of
        Inl e \<Rightarrow> Inl e
      | Inr nav \<Rightarrow>
          Inr (Elem ''header'' None
                 (spread [(''className'', PStr ''container relative z-20   '')]
                    (if truthy_string theme then own_prop ''data-theme'' theme else []))
                 [Elem ''div'' None [(''className'', PStr ''py-8 flex justify-between'')]
                    [Elem ''Link'' None [(''href'', PStr ''/'')]
                       [Elem ''Logo'' None
                          [(''loading'', PStr ''eager''), (''priority'', PStr ''high''),
                           (''className'', PStr ''invert dark:invert-0'')] []],
                     nav]]))"

text \<open>\<^verbatim>\<open>Footer\<close>, given the global configuration that \<^verbatim>\<open>getCachedGlobal('footer', 1)\<close>
  resolved to.\<close>

definition Footer :: "nav_global nullable \<Rightarrow> js_error + ('r, 'm) jsx" where
  "Footer footerData =
     (case js_map (nav_list footerData)
             (\<lambda>item i. Elem ''CMSLink'' (Some (KeyStr (label (link item))))
                          (spread [(''className'', PStr ''text-white'')] (link_props (link item))) [])
      of Inl e \<Rightarrow> Inl e
       | Inr items \<Rightarrow>
           Inr (Elem ''footer'' None
                  [(''className'', PStr ''mt-auto border-t border-border bg-black dark:bg-card text-white'')]
                  [Elem ''div'' None
                     [(''className'',
                       PStr ''container py-8 gap-8 flex flex-col md:flex-row md:justify-between'')]
                     [Elem ''Link'' None [(''className'', PStr ''flex items-center''), (''href'', PStr ''/'')]
                        [Elem ''Logo'' None [] []],
                      Elem ''div'' None
                        [(''className'',
                          PStr ''flex flex-col-reverse items-start md:flex-row gap-4 md:items-center'')]
                        [Elem ''ThemeSelector'' None [] [],
                         Elem ''nav'' None [(''className'', PStr ''flex flex-col md:flex-row gap-4'')]
                           items]]]))"

text \<open>\<^verbatim>\<open>richText && <RichText ... />\<close>: a missing rich text is itself the child.\<close>

fun richText_section :: "'r nullable \<Rightarrow> ('r, 'm) jsx" where
  "richText_section (Val r) =
     Elem ''RichText'' None
       [(''className'', PStr ''mb-6''), (''data'', PRich r), (''enableGutter'', PBool False)] []"
| "richText_section Null = Empty"
| "richText_section Undefined = Empty"

text \<open>\<^verbatim>\<open>Array.isArray(links) && links.length > 0 && (<ul>{links.map(...)}</ul>)\<close>.\<close>

definition links_section :: "linkItem list nullable \<Rightarrow> js_error + ('r, 'm) jsx" where
  "links_section ls =
     (if isArray ls then
        (case js_length ls of
           Inl e \<Rightarrow> Inl e
         | Inr n \<Rightarrow>
             (if 0 < n then
                (case js_map ls (\<lambda>item i. Elem ''li'' (Some (KeyIdx i)) []
                                            [Elem ''CMSLink'' None (link_props (link item)) []])
                 of Inl e \<Rightarrow> Inl e
                  | Inr lis \<Rightarrow>
                      Inr (Elem ''ul'' None
                             [(''className'', PStr ''flex md:justify-center gap-4'')] lis))
              else Inr Empty))
      else Inr Empty)"

text \<open>
  \<^verbatim>\<open>media && typeof media === 'object' && (<Media ... />)\<close>: a missing value and the empty
  identifier are falsy and are themselves the child; for another identifier the
  \<^verbatim>\<open>typeof\<close> test gives \<^verbatim>\<open>false\<close>.
\<close>

fun media_section :: "'m media_ref nullable \<Rightarrow> ('r, 'm) jsx" where
  "media_section Undefined = Empty"
| "media_section Null = Empty"
| "media_section (Val (MediaId s)) = (if s = [] then Text [] else Empty)"
| "media_section (Val (MediaDoc m)) =
     Elem ''Media'' None
       [(''fill'', PBool True), (''imgClassName'', PStr ''-z-10 object-cover''),
        (''priority'', PBool True), (''resource'', PMedia m)] []"

definition HighImpactHero :: "('r, 'm) hero \<Rightarrow> js_error + ('r, 'm) jsx" where
  "HighImpactHero props =
     (case links_section (links props) of
        Inl e \<Rightarrow> Inl e
      | Inr ul \<Rightarrow>
          Inr (Elem ''div'' None
                 [(''className'',
                   PStr ''relative -mt-[10.4rem] flex items-center justify-center text-white''),
                  (''data-theme'', PStr ''dark'')]
                 [Elem ''div'' None
                    [(''className'',
                      PStr ''container mb-8 z-10 relative flex items-center justify-center'')]
                    [Elem ''div'' None [(''className'', PStr ''max-w-[36.5rem] md:text-center'')]
                       [richText_section (richText props), ul]],
                  Elem ''div'' None [(''className'', PStr ''min-h-[80vh] select-none'')]
                    [media_section (media props)]]))"


text \<open>The navigation array of a global is missing (\<^verbatim>\<open>null\<close> or \<^verbatim>\<open>undefined\<close>, or the
  global itself is) or has length 0.\<close>

definition nav_missing_or_empty :: "nav_global nullable \<Rightarrow> bool" where
  "nav_missing_or_empty data =
     (case opt_chain data navItems of
        Val xs \<Rightarrow> length xs = 0
      | Null \<Rightarrow> True
      | Undefined \<Rightarrow> True)"

section \<open>Properties of the theme propagation\<close>

lemma HeaderClient_sync_cases:
  "HeaderClient_sync t h = (if truthy_string h then h else t)"
  by (simp add: HeaderClient_sync_def HeaderClient_setTheme_call_def)

lemma HeaderClient_observe_snoc:
  "HeaderClient_observe t (hs @ [h]) = HeaderClient_sync (HeaderClient_observe t hs) h"
  by (simp add: HeaderClient_observe_def)

lemma HeaderClient_observe_last:
  "HeaderClient_observe t hs = last (t # filter truthy_string hs)"
  by (induction hs rule: rev_induct) (auto simp: HeaderClient_observe_def HeaderClient_sync_cases)

lemma HeaderClient_observe_reachable:
  "HeaderClient_observe HeaderClient_initial_theme hs = Null \<or>
   (\<exists>s. s \<noteq> [] \<and> HeaderClient_observe HeaderClient_initial_theme hs = Val s)"
proof (induction hs rule: rev_induct)
  case Nil
  show ?case by (simp add: HeaderClient_observe_def HeaderClient_initial_theme_def)
next
  case (snoc h hs)
  show ?case
  proof (cases "truthy_string h")
    case True
    then obtain s where "h = Val s" "s \<noteq> []" by (cases h) auto
    with True show ?thesis by (simp add: HeaderClient_observe_snoc HeaderClient_sync_cases)
  next
    case False
    with snoc show ?thesis by (simp add: HeaderClient_observe_snoc HeaderClient_sync_cases)
  qed
qed

lemma HighImpactHero_writes_cases:
  "HighImpactHero_writes props lc = (if lc = Unmounted then [] else [Val ''dark''])"
  by (cases lc) (simp_all add: HighImpactHero_writes_def useEffect_runs_def)

lemma HighImpactHero_session_dark:
  "HighImpactHero_session steps (Val ''dark'') = Val ''dark''"
  by (induction steps)
     (auto simp: HighImpactHero_session_def HighImpactHero_writes_cases apply_writes_def
                 setHeaderTheme_def)

text \<open>
  C1. Whatever sequence of shared values the Header is rendered with, its local theme
  changes at a step only if the shared value of that step is neither \<^verbatim>\<open>null\<close> nor
  \<^verbatim>\<open>undefined\<close>, and then it becomes that value; the effect body makes no call of
  \<^verbatim>\<open>setTheme\<close> for \<^verbatim>\<open>null\<close>; a reset to \<^verbatim>\<open>null\<close> at the end of any sequence leaves the
  local theme as it was; and "dark" followed by \<^verbatim>\<open>null\<close> leaves "dark", from every
  starting state.
\<close>

theorem HeaderClient_theme_sticky:
  "(HeaderClient_observe t (hs @ [h]) \<noteq> HeaderClient_observe t hs \<longrightarrow>
      h \<noteq> Null \<and> h \<noteq> Undefined \<and> HeaderClient_observe t (hs @ [h]) = h)
   \<and> HeaderClient_setTheme_call Null t = None
   \<and> HeaderClient_observe t (hs @ [Null]) = HeaderClient_observe t hs
   \<and> HeaderClient_observe t (hs @ [Val ''dark'', Null]) = Val ''dark''"
proof -
  have step: "HeaderClient_observe t (hs @ [h]) \<noteq> HeaderClient_observe t hs \<longrightarrow>
      h \<noteq> Null \<and> h \<noteq> Undefined \<and> HeaderClient_observe t (hs @ [h]) = h"
    by (cases h) (simp_all add: HeaderClient_observe_snoc HeaderClient_sync_cases)
  have call: "HeaderClient_setTheme_call Null t = None"
    by (simp add: HeaderClient_setTheme_call_def)
  have reset: "HeaderClient_observe t (hs @ [Null]) = HeaderClient_observe t hs"
    by (simp add: HeaderClient_observe_snoc HeaderClient_sync_cases)
  have "HeaderClient_observe t (hs @ [Val ''dark'', Null])
          = HeaderClient_observe t ((hs @ [Val ''dark'']) @ [Null])"
    by simp
  also have "\<dots> = HeaderClient_observe t (hs @ [Val ''dark''])"
    by (simp only: HeaderClient_observe_snoc HeaderClient_sync_cases truthy_string.simps if_False)
  also have "\<dots> = Val ''dark''"
    by (simp add: HeaderClient_observe_snoc HeaderClient_sync_cases)
  finally show ?thesis using step call reset by blast
qed

theorem HeaderClient_theme_sticky_witness:
  "HeaderClient_observe Null ([Val ''light''] @ [Val ''dark''])
     \<noteq> HeaderClient_observe Null [Val ''light'']
   \<and> HeaderClient_observe Null ([Val ''light''] @ [Val ''dark'']) = Val ''dark''
   \<and> HeaderClient_observe Null ([Val ''light''] @ [Val ''dark'', Null]) = Val ''dark''"
proof -
  have changed: "HeaderClient_observe Null ([Val ''light''] @ [Val ''dark''])
                   \<noteq> HeaderClient_observe Null [Val ''light'']"
    by (simp add: HeaderClient_observe_def HeaderClient_sync_cases)
  show ?thesis
    using changed HeaderClient_theme_sticky [of Null "[Val ''light'']" "Val ''dark''"] by blast
qed

text \<open>
  C3. The effect the Header runs when it mounts makes exactly one call,
  \<^verbatim>\<open>setHeaderTheme(null)\<close>, and the shared value is \<^verbatim>\<open>null\<close> after it, whatever it was
  before.
\<close>

theorem HeaderClient_mount_resets:
  "HeaderClient_writes Mounted setter_changed = [Null]
   \<and> apply_writes (HeaderClient_writes Mounted setter_changed) headerTheme = Null"
  by (simp add: HeaderClient_writes_def useEffect_runs_def apply_writes_def setHeaderTheme_def)

text \<open>
  C4. After the mounting render and after every later render of the Hero its effect makes
  exactly one call, \<^verbatim>\<open>setHeaderTheme('dark')\<close>, and the shared value is "dark" after it,
  for all props and every previous shared value.
\<close>

theorem HighImpactHero_effect_sets_dark:
  "HighImpactHero_writes props Mounted = [Val ''dark'']
   \<and> HighImpactHero_writes props Rerendered = [Val ''dark'']
   \<and> apply_writes (HighImpactHero_writes props Mounted) headerTheme = Val ''dark''
   \<and> apply_writes (HighImpactHero_writes props Rerendered) headerTheme = Val ''dark''"
  by (simp add: HighImpactHero_writes_def useEffect_runs_def apply_writes_def setHeaderTheme_def)

text \<open>
  C7. Once the shared value is "dark", it is still "dark" after any sequence of mounts,
  re-renders and unmounts of the Hero with any props: every value the Hero writes is
  "dark", and on unmount it writes nothing.
\<close>

theorem HighImpactHero_never_reverts:
  "HighImpactHero_session steps (Val ''dark'') = Val ''dark''
   \<and> set (HighImpactHero_writes props lc) \<subseteq> {Val ''dark''}
   \<and> HighImpactHero_writes props Unmounted = []"
  by (simp add: HighImpactHero_session_dark HighImpactHero_writes_cases)

theorem HighImpactHero_never_reverts_witness:
  "HighImpactHero_session [((), Mounted), ((), Rerendered), ((), Unmounted)] (Val ''dark'')
     = Val ''dark''
   \<and> set (HighImpactHero_writes () Rerendered) \<subseteq> {Val ''dark''}
   \<and> HighImpactHero_writes () Rerendered \<noteq> []"
proof -
  have "HighImpactHero_writes () Rerendered \<noteq> []"
    by (simp add: HighImpactHero_writes_def useEffect_runs_def)
  then show ?thesis
    using HighImpactHero_never_reverts
            [of "[((), Mounted), ((), Rerendered), ((), Unmounted)]" "()" Rerendered]
    by simp
qed

text \<open>
  C10. Running the Header's update step a second time with the same shared value changes
  nothing; and when the shared value equals the displayed theme or is \<^verbatim>\<open>null\<close>, the step
  makes no call of \<^verbatim>\<open>setTheme\<close> and the local state stays as it is.
\<close>

theorem HeaderClient_sync_idempotent:
  "HeaderClient_sync (HeaderClient_sync t h) h = HeaderClient_sync t h
   \<and> (h = t \<or> h = Null \<longrightarrow> HeaderClient_setTheme_call h t = None \<and> HeaderClient_sync t h = t)"
  by (auto simp: HeaderClient_sync_def HeaderClient_setTheme_call_def)

theorem HeaderClient_sync_idempotent_witness:
  "HeaderClient_sync (HeaderClient_sync (Val ''dark'') (Val ''dark'')) (Val ''dark'') = Val ''dark''
   \<and> HeaderClient_setTheme_call (Val ''dark'') (Val ''dark'') = None
   \<and> HeaderClient_sync (Val ''light'') Null = Val ''light''
   \<and> HeaderClient_sync (HeaderClient_sync Null (Val ''dark'')) (Val ''dark'')
       = HeaderClient_sync Null (Val ''dark'')"
  using HeaderClient_sync_idempotent [of "Val ''dark''" "Val ''dark''"]
        HeaderClient_sync_idempotent [of "Val ''light''" Null]
        HeaderClient_sync_idempotent [of Null "Val ''dark''"]
  by simp

section \<open>Properties of the rendered output\<close>

lemma nav_list_Val: "\<exists>xs. nav_list data = Val xs"
proof (cases data)
  case (Val d)
  then show ?thesis
    by (cases "navItems d") (simp_all add: nav_list_def or_else_def opt_chain_def)
qed (simp_all add: nav_list_def or_else_def opt_chain_def)


lemma map_enumerate_ignore_index: "map (\<lambda>(i, y). g y) (enumerate n ys) = map g ys"
  by (induction ys arbitrary: n) simp_all

lemma js_map_Val: "js_map (Val ys) (\<lambda>item i. g item) = Inr (map g ys)"
  by (simp add: js_map_def map_enumerate_ignore_index)


lemma HeaderNav_Inr: "\<exists>nav. HeaderNav data = Inr nav \<and> etype nav = ''nav''"
proof -
  obtain xs where "nav_list data = Val xs" using nav_list_Val by blast
  then show ?thesis by (simp add: HeaderNav_def js_map_Val)
qed






lemma spread_data_theme:
  "map_of (spread [(''className'', c)] (if truthy_string t then own_prop ''data-theme'' t else []))
      ''data-theme''
     = (case t of Val s \<Rightarrow> if s \<noteq> [] then Some (PStr s) else None | Null \<Rightarrow> None | Undefined \<Rightarrow> None)"
  by (cases t) (simp_all add: spread_def own_prop_def)

lemma HeaderClient_root:
  "\<exists>root :: ('r, 'm) jsx. HeaderClient data t = Inr root \<and> etype root = ''header''
      \<and> attr ''data-theme'' root
          = (case t of Val s \<Rightarrow> if s \<noteq> [] then Some (PStr s) else None | Null \<Rightarrow> None
             | Undefined \<Rightarrow> None)"
proof -
  obtain nav :: "('r, 'm) jsx" where "HeaderNav data = Inr nav" using HeaderNav_Inr by blast
  then show ?thesis
    by (simp add: HeaderClient_def attr_def spread_data_theme split del: if_split)
qed

text \<open>
  C2. In every state the Header can reach from its initial local state, whatever shared
  values it was rendered with, the root \<^verbatim>\<open>header\<close> element carries \<^verbatim>\<open>data-theme\<close> exactly
  when the local theme is not \<^verbatim>\<open>null\<close>, and the attribute's value is then the local
  theme. After the scenario in which the shared value starts as \<open>h0\<close>, the Hero mounts and
  the Header is rendered with the new shared value, the root carries
  \<^verbatim>\<open>data-theme="dark"\<close>. Rendering never raises.
\<close>

theorem HeaderClient_theme_attribute:
  "(\<exists>root :: ('r, 'm) jsx.
      HeaderClient data (HeaderClient_observe HeaderClient_initial_theme hs) = Inr root
      \<and> etype root = ''header''
      \<and> (attr ''data-theme'' root \<noteq> None)
          = (HeaderClient_observe HeaderClient_initial_theme hs \<noteq> Null)
      \<and> attr ''data-theme'' root
          = (case HeaderClient_observe HeaderClient_initial_theme hs of
               Val s \<Rightarrow> Some (PStr s) | Null \<Rightarrow> None | Undefined \<Rightarrow> None))
   \<and> (\<exists>root :: ('r, 'm) jsx. HeaderClient data
                (HeaderClient_observe HeaderClient_initial_theme
                   [h0, apply_writes (HighImpactHero_writes props Mounted) h0]) = Inr root
         \<and> attr ''data-theme'' root = Some (PStr ''dark''))"
proof -
  let ?t = "HeaderClient_observe HeaderClient_initial_theme hs"
  obtain root :: "('r, 'm) jsx" where root: "HeaderClient data ?t = Inr root" "etype root = ''header''"
      "attr ''data-theme'' root
          = (case ?t of Val s \<Rightarrow> if s \<noteq> [] then Some (PStr s) else None | Null \<Rightarrow> None
             | Undefined \<Rightarrow> None)"
    using HeaderClient_root [of data ?t, where ?'r = 'r and ?'m = 'm] by blast
  from HeaderClient_observe_reachable [of hs]
  have "(attr ''data-theme'' root \<noteq> None) = (?t \<noteq> Null)
      \<and> attr ''data-theme'' root
          = (case ?t of Val s \<Rightarrow> Some (PStr s) | Null \<Rightarrow> None | Undefined \<Rightarrow> None)"
    using root(3) by auto
  with root have first: "\<exists>root :: ('r, 'm) jsx. HeaderClient data ?t = Inr root
      \<and> etype root = ''header''
      \<and> (attr ''data-theme'' root \<noteq> None) = (?t \<noteq> Null)
      \<and> attr ''data-theme'' root
          = (case ?t of Val s \<Rightarrow> Some (PStr s) | Null \<Rightarrow> None | Undefined \<Rightarrow> None)"
    by blast
  have dark: "HeaderClient_observe HeaderClient_initial_theme
                [h0, apply_writes (HighImpactHero_writes props Mounted) h0] = Val ''dark''"
    by (simp add: HeaderClient_observe_def HeaderClient_sync_cases HighImpactHero_writes_cases
                  apply_writes_def setHeaderTheme_def)
  have second: "\<exists>root :: ('r, 'm) jsx. HeaderClient data
                (HeaderClient_observe HeaderClient_initial_theme
                   [h0, apply_writes (HighImpactHero_writes props Mounted) h0]) = Inr root
         \<and> attr ''data-theme'' root = Some (PStr ''dark'')"
    using HeaderClient_root [of data "Val ''dark''", where ?'r = 'r and ?'m = 'm]
    by (auto simp: dark)
  from first second show ?thesis by blast
qed

theorem HeaderClient_theme_attribute_witness:
  "attr ''data-theme''
     (Elem ''header'' None
        [(''className'', PStr ''container relative z-20   ''), (''data-theme'', PStr ''dark'')]
        ([] :: (unit, unit) jsx list)) = Some (PStr ''dark'')
   \<and> (\<exists>root :: (unit, unit) jsx.
         HeaderClient Null (HeaderClient_observe HeaderClient_initial_theme [Null, Val ''dark'', Null])
           = Inr root
         \<and> attr ''data-theme'' root = Some (PStr ''dark''))
   \<and> (\<exists>root :: (unit, unit) jsx.
         HeaderClient Null (HeaderClient_observe HeaderClient_initial_theme [Null, Undefined])
           = Inr root
         \<and> attr ''data-theme'' root = None)"
proof -
  have dark: "HeaderClient_observe HeaderClient_initial_theme [Null, Val ''dark'', Null] = Val ''dark''"
    by (simp add: HeaderClient_observe_def HeaderClient_sync_cases)
  have unset: "HeaderClient_observe HeaderClient_initial_theme [Null, Undefined] = Null"
    by (simp add: HeaderClient_observe_def HeaderClient_sync_cases HeaderClient_initial_theme_def)
  show ?thesis
    using HeaderClient_theme_attribute [of Null "[Null, Val ''dark'', Null]" Null "()",
            where ?'r = unit and ?'m = unit]
          HeaderClient_theme_attribute [of Null "[Null, Undefined]" Null "()",
            where ?'r = unit and ?'m = unit]
    by (auto simp: dark unset attr_def)
qed






lemma nav_missing_or_empty_list: "nav_missing_or_empty data \<Longrightarrow> nav_list data = Val []"
proof (cases data)
  case (Val d)
  assume "nav_missing_or_empty data"
  with Val show ?thesis
    by (cases "navItems d") (simp_all add: nav_missing_or_empty_def nav_list_def or_else_def opt_chain_def)
qed (simp_all add: nav_list_def or_else_def opt_chain_def)

text \<open>
  C6. When the navigation array is missing or of length 0, the nav list is the empty
  list, the Header nav renders without raising and its only child is the static search
  link (a \<^verbatim>\<open>Link\<close> to \<^verbatim>\<open>/search\<close> holding the hidden text "Search" and the \<^verbatim>\<open>SearchIcon\<close>),
  these two being its only components, and the Footer renders without raising, its only
  components being the logo (in its home link) and the theme selector, its \<^verbatim>\<open>nav\<close>
  element having no children.
\<close>

theorem nav_missing_or_empty_renders:
  assumes "nav_missing_or_empty data"
  shows "nav_list data = Val []
   \<and> (\<exists>nav :: ('r, 'm) jsx. HeaderNav data = Inr nav \<and> etype nav = ''nav''
         \<and> echildren nav =
             [Elem ''Link'' None [(''href'', PStr ''/search'')]
                [Elem ''span'' None [(''className'', PStr ''sr-only'')] [Text ''Search''],
                 Elem ''SearchIcon'' None [(''className'', PStr ''w-5 text-primary'')] []]]
         \<and> components nav = [''Link'', ''SearchIcon'']
         \<and> elements_of ''CMSLink'' nav = [])
   \<and> (\<exists>root :: ('r, 'm) jsx. Footer data = Inr root \<and> etype root = ''footer''
         \<and> components root = [''Link'', ''Logo'', ''ThemeSelector'']
         \<and> map echildren (elements_of ''nav'' root) = [[]]
         \<and> elements_of ''CMSLink'' root = [])"
proof -
  have nl: "nav_list data = Val []" using assms by (rule nav_missing_or_empty_list)
  have "js_map (Val []) f = Inr []" for f :: "linkItem \<Rightarrow> nat \<Rightarrow> ('r, 'm) jsx"
    by (simp add: js_map_def)
  then show ?thesis
    by (simp add: nl HeaderNav_def Footer_def search_link_def is_component_def)
qed

theorem nav_missing_or_empty_renders_witness:
  "nav_missing_or_empty (Val \<lparr>navItems = Null\<rparr>)
   \<and> nav_list (Val \<lparr>navItems = Null\<rparr>) = Val []
   \<and> (\<exists>nav :: (unit, unit) jsx. HeaderNav (Val \<lparr>navItems = Null\<rparr>) = Inr nav
         \<and> echildren nav =
             [Elem ''Link'' None [(''href'', PStr ''/search'')]
                [Elem ''span'' None [(''className'', PStr ''sr-only'')] [Text ''Search''],
                 Elem ''SearchIcon'' None [(''className'', PStr ''w-5 text-primary'')] []]]
         \<and> components nav = [''Link'', ''SearchIcon''])
   \<and> nav_missing_or_empty Undefined
   \<and> (\<exists>root :: (unit, unit) jsx. Footer Undefined = Inr root
         \<and> components root = [''Link'', ''Logo'', ''ThemeSelector''])
   \<and> nav_missing_or_empty (Val \<lparr>navItems = Val []\<rparr>)
   \<and> (\<exists>root :: (unit, unit) jsx. Footer (Val \<lparr>navItems = Val []\<rparr>) = Inr root
         \<and> elements_of ''CMSLink'' root = [])"
proof -
  have a: "nav_missing_or_empty (Val \<lparr>navItems = Null\<rparr>)"
    by (simp add: nav_missing_or_empty_def opt_chain_def)
  have b: "nav_missing_or_empty Undefined"
    by (simp add: nav_missing_or_empty_def opt_chain_def)
  have c: "nav_missing_or_empty (Val \<lparr>navItems = Val []\<rparr>)"
    by (simp add: nav_missing_or_empty_def opt_chain_def)
  show ?thesis
    using a b c
      nav_missing_or_empty_renders [OF a, where ?'r = unit and ?'m = unit]
      nav_missing_or_empty_renders [OF b, where ?'r = unit and ?'m = unit]
      nav_missing_or_empty_renders [OF c, where ?'r = unit and ?'m = unit]
    by blast
qed

lemma links_section_cases:
  "links_section ls =
     Inr (case ls of
            Val xs \<Rightarrow>
              if xs = [] then Empty
              else Elem ''ul'' None [(''className'', PStr ''flex md:justify-center gap-4'')]
                     (map (\<lambda>(i, item). Elem ''li'' (Some (KeyIdx i)) []
                              [Elem ''CMSLink'' None (link_props (link item)) []])
                        (enumerate 0 xs))
          | Null \<Rightarrow> Empty
          | Undefined \<Rightarrow> Empty)"
  by (cases ls) (simp_all add: links_section_def isArray_def js_length_def js_map_def)

lemma elements_of_list_items:
  "ty \<noteq> ''li'' \<Longrightarrow> ty \<noteq> ''CMSLink'' \<Longrightarrow>
   concat (map (elements_of ty \<circ> (\<lambda>(i, item). Elem ''li'' (k i) [] [Elem ''CMSLink'' None (ps item) []])) ys)
     = []"
  by (induction ys) auto

lemma elements_of_richText_section:
  "ty \<noteq> ''RichText'' \<Longrightarrow> elements_of ty (richText_section r) = []"
  "(elements_of ''RichText'' (richText_section r) \<noteq> []) = (\<exists>v. r = Val v)"
  by (cases r; simp)+

lemma elements_of_media_section:
  "ty \<noteq> ''Media'' \<Longrightarrow> elements_of ty (media_section m) = []"
  "(elements_of ''Media'' (media_section m) \<noteq> []) = (\<exists>d. m = Val (MediaDoc d))"
  by (induction m rule: media_section.induct; simp)+

text \<open>
  C8. For all props the Hero renders without raising; the result holds a \<^verbatim>\<open>RichText\<close>
  element exactly when \<^verbatim>\<open>richText\<close> is present, a \<^verbatim>\<open>ul\<close> of links exactly when \<^verbatim>\<open>links\<close>
  is an array of length greater than 0, and a \<^verbatim>\<open>Media\<close> element exactly when \<^verbatim>\<open>media\<close> is
  present and is an object.
\<close>

theorem HighImpactHero_sections:
  "\<exists>root :: ('r, 'm) jsx. HighImpactHero props = Inr root
     \<and> (elements_of ''RichText'' root \<noteq> []) = (\<exists>r. richText props = Val r)
     \<and> (elements_of ''ul'' root \<noteq> []) = (\<exists>xs. links props = Val xs \<and> 0 < length xs)
     \<and> (elements_of ''Media'' root \<noteq> []) = (\<exists>m. media props = Val (MediaDoc m))"
proof (cases "links props")
  case (Val xs)
  then show ?thesis
    by (simp add: HighImpactHero_def links_section_cases elements_of_richText_section
                  elements_of_media_section elements_of_list_items)
next
  case Null
  then show ?thesis
    by (simp add: HighImpactHero_def links_section_cases elements_of_richText_section
                  elements_of_media_section)
next
  case Undefined
  then show ?thesis
    by (simp add: HighImpactHero_def links_section_cases elements_of_richText_section
                  elements_of_media_section)
qed

theorem HighImpactHero_sections_witness:
  "(\<exists>root :: (unit, unit) jsx.
      HighImpactHero \<lparr>links = Null, media = Undefined, richText = Null\<rparr> = Inr root
      \<and> elements_of ''RichText'' root = [] \<and> elements_of ''ul'' root = []
      \<and> elements_of ''Media'' root = [])
   \<and> (\<exists>root :: (unit, unit) jsx.
      HighImpactHero \<lparr>links = Val [], media = Val (MediaId ''64f0''), richText = Val ()\<rparr> = Inr root
      \<and> elements_of ''RichText'' root \<noteq> [] \<and> elements_of ''ul'' root = []
      \<and> elements_of ''Media'' root = [])
   \<and> (\<exists>root :: (unit, unit) jsx.
      HighImpactHero
        \<lparr>links = Val [\<lparr>link = \<lparr>label = ''Shop'', url = Val ''/shop'', reference = Undefined,
                                appearance = Val ''default''\<rparr>\<rparr>],
         media = Val (MediaDoc ()), richText = Val ()\<rparr> = Inr root
      \<and> elements_of ''RichText'' root \<noteq> [] \<and> elements_of ''ul'' root \<noteq> []
      \<and> elements_of ''Media'' root \<noteq> [])"
  using HighImpactHero_sections
          [of "\<lparr>links = Null, media = Undefined, richText = Null\<rparr>"]
        HighImpactHero_sections
          [of "\<lparr>links = Val [], media = Val (MediaId ''64f0''), richText = Val ()\<rparr>"]
        HighImpactHero_sections
          [of "\<lparr>links = Val [\<lparr>link = \<lparr>label = ''Shop'', url = Val ''/shop'',
                                        reference = Undefined, appearance = Val ''default''\<rparr>\<rparr>],
                 media = Val (MediaDoc ()), richText = Val ()\<rparr>"]
  by simp

text \<open>
  C9. For all props the root element of the Hero is a \<^verbatim>\<open>div\<close> carrying
  \<^verbatim>\<open>data-theme="dark"\<close>; the shared value and the Header's local theme are not inputs of
  the render.
\<close>

theorem HighImpactHero_root_theme:
  "\<exists>root :: ('r, 'm) jsx. HighImpactHero props = Inr root \<and> etype root = ''div''
     \<and> attr ''data-theme'' root = Some (PStr ''dark'')"
  by (simp add: HighImpactHero_def links_section_cases attr_def)

end
